theory Spec2Isabelle
  imports Complex_Main "HOL-Library.Product_Lexorder"
begin

section \<open>Data model\<close>

text \<open>
  The scripts load one day of telemetry into a pandas DataFrame and aggregate its
  columns. A DataFrame is modelled as the list of its rows, in file order (the default
  RangeIndex, so a row's label is its position).

  Numbers. The columns hold float64 values. A finite float is modelled by the exact
  rational it denotes, and arithmetic on finite values is exact: rounding error,
  overflow and the sign of zero are not modelled. The special values that numpy's
  division produces for a zero divisor are kept, because the percentage metrics divide
  by column sums without a guard.
\<close>

record timestamp =
  year :: nat
  month :: nat
  day :: nat
  hour :: nat
  minute :: nat
  second :: nat

record row =
  timestamp :: timestamp
  pv_profile :: rat
  pv_utilized_kw_opt :: rat
  pv_to_grid_kw_opt :: rat
  pv_to_battery_kw_opt :: rat
  grid_to_battery_kw_opt :: rat
  battery_to_load_kw_opt :: rat
  battery_to_grid_kw_opt :: rat
  grid_import_kw_opt :: rat
  grid_export_kw_opt :: rat
  gross_load :: rat
  net_load :: rat
  foreign_power_costs :: rat
  electricity_savings_step :: rat
  feed_in_revenue_delta_step :: rat
  SOC_opt :: rat

datatype npfloat = Fin rat | PInf | NInf | NaN

datatype pyval = Str string | Num npfloat

datatype py_error =
    IndexError string
  | KeyError string
  | RuntimeError string
  | OtherError string

text \<open>\<open>str(e)\<close> of an exception; a KeyError shows the \<open>repr\<close> of its key.\<close>

fun str_of_error :: "py_error \<Rightarrow> string" where
  "str_of_error (IndexError m) = m"
| "str_of_error (KeyError k) = [CHR 0x27] @ k @ [CHR 0x27]"
| "str_of_error (RuntimeError m) = m"
| "str_of_error (OtherError m) = m"

section \<open>Library operations used by the scripts\<close>

subsection \<open>Formatting of dates and times\<close>

definition digit_char :: "nat \<Rightarrow> char" where
  "digit_char d = char_of (48 + d mod 10)"

text \<open>\<open>'%02d'\<close> and \<open>'%04d'\<close> for the ranges a date or a time of day takes.\<close>

definition pad2 :: "nat \<Rightarrow> string" where
  "pad2 n = [digit_char (n div 10), digit_char n]"

definition pad4 :: "nat \<Rightarrow> string" where
  "pad4 n = [digit_char (n div 1000), digit_char (n div 100), digit_char (n div 10), digit_char n]"

text \<open>\<open>str(ts.date())\<close>: the ISO form YYYY-MM-DD.\<close>

definition str_date :: "timestamp \<Rightarrow> string" where
  "str_date t = pad4 (year t) @ ''-'' @ pad2 (month t) @ ''-'' @ pad2 (day t)"

text \<open>\<open>ts.strftime("%H:%M")\<close>.\<close>

definition strftime_HM :: "timestamp \<Rightarrow> string" where
  "strftime_HM t = pad2 (hour t) @ '':'' @ pad2 (minute t)"

text \<open>Timestamps are compared as date-times, that is lexicographically on their fields.\<close>

definition ts_key :: "timestamp \<Rightarrow> nat \<times> nat \<times> nat \<times> nat \<times> nat \<times> nat" where
  "ts_key t = (year t, month t, day t, hour t, minute t, second t)"

subsection \<open>Rounding\<close>

text \<open>
  \<open>round(x, nd)\<close> on a numpy float: scale by \<open>10 ^ nd\<close>, round to the nearest integer
  with ties to the even one, scale back. Non-finite values pass through.
\<close>

definition round_half_even :: "rat \<Rightarrow> int" where
  "round_half_even x =
     (let f = \<lfloor>x\<rfloor>; d = x - of_int f
      in if d < 1 / 2 then f
         else if 1 / 2 < d then f + 1
         else if even f then f else f + 1)"

definition py_round :: "rat \<Rightarrow> nat \<Rightarrow> rat" where
  "py_round x nd = of_int (round_half_even (x * 10 ^ nd)) / 10 ^ nd"

fun np_round :: "npfloat \<Rightarrow> nat \<Rightarrow> npfloat" where
  "np_round (Fin x) nd = Fin (py_round x nd)"
| "np_round PInf nd = PInf"
| "np_round NInf nd = NInf"
| "np_round NaN nd = NaN"

subsection \<open>Division and multiplication of numpy scalars\<close>

text \<open>
  Dividing two column sums. A zero divisor raises nothing: numpy emits a RuntimeWarning
  and returns \<open>nan\<close> for \<open>0 / 0\<close> and a signed infinity otherwise.
\<close>

definition np_div :: "rat \<Rightarrow> rat \<Rightarrow> npfloat" where
  "np_div a b =
     (if b = 0 then (if a = 0 then NaN else if 0 < a then PInf else NInf)
      else Fin (a / b))"

text \<open>Multiplication by a positive finite constant (the \<open>* 100\<close> of the percentages).\<close>

fun np_scale :: "npfloat \<Rightarrow> rat \<Rightarrow> npfloat" where
  "np_scale (Fin x) c = Fin (x * c)"
| "np_scale PInf c = PInf"
| "np_scale NInf c = NInf"
| "np_scale NaN c = NaN"

subsection \<open>Series aggregates\<close>

text \<open>\<open>Series.sum()\<close>; the sum of an empty series is 0.\<close>

definition series_sum :: "rat list \<Rightarrow> rat" where
  "series_sum xs = sum_list xs"

text \<open>\<open>Series.max()\<close> and \<open>Series.min()\<close> of a non-empty series.\<close>

fun series_max :: "rat list \<Rightarrow> rat option" where
  "series_max [] = None"
| "series_max (x # xs) = Some (fold max xs x)"

fun series_min :: "rat list \<Rightarrow> rat option" where
  "series_min [] = None"
| "series_min (x # xs) = Some (fold min xs x)"

text \<open>
  \<open>Series.idxmax()\<close> and \<open>Series.idxmin()\<close>: the label of the first occurrence of the
  extremal value. The scan keeps the best position seen so far and replaces it only by
  a strictly better value.
\<close>

fun idxmax_scan :: "nat \<Rightarrow> nat \<Rightarrow> rat \<Rightarrow> rat list \<Rightarrow> nat" where
  "idxmax_scan i best bv [] = best"
| "idxmax_scan i best bv (x # xs) =
     (if bv < x then idxmax_scan (Suc i) i x xs else idxmax_scan (Suc i) best bv xs)"

fun idxmax :: "rat list \<Rightarrow> nat option" where
  "idxmax [] = None"
| "idxmax (x # xs) = Some (idxmax_scan 1 0 x xs)"

fun idxmin_scan :: "nat \<Rightarrow> nat \<Rightarrow> rat \<Rightarrow> rat list \<Rightarrow> nat" where
  "idxmin_scan i best bv [] = best"
| "idxmin_scan i best bv (x # xs) =
     (if x < bv then idxmin_scan (Suc i) i x xs else idxmin_scan (Suc i) best bv xs)"

fun idxmin :: "rat list \<Rightarrow> nat option" where
  "idxmin [] = None"
| "idxmin (x # xs) = Some (idxmin_scan 1 0 x xs)"

text \<open>\<open>df.loc[label, 'timestamp']\<close> on the default index.\<close>

definition loc_timestamp :: "row list \<Rightarrow> nat \<Rightarrow> py_error + timestamp" where
  "loc_timestamp df i =
     (if i < length df then Inr (timestamp (df ! i)) else Inl (KeyError ''label''))"

section \<open>The daily summary (dataclean.py, lines 12-33)\<close>

definition col :: "(row \<Rightarrow> rat) \<Rightarrow> row list \<Rightarrow> rat list" where
  "col f df = map f df"

text \<open>
  The time of day of the row that \<open>idx\<close> selects, as the dictionary entries
  \<open>df.loc[df[c].idxmax(), 'timestamp'].strftime("%H:%M")\<close> compute it.
\<close>

definition time_at :: "row list \<Rightarrow> nat option \<Rightarrow> py_error + string" where
  "time_at df idx =
     (case idx of
        None \<Rightarrow> Inl (OtherError ''attempt to get argmax of an empty sequence'')
      | Some i \<Rightarrow> (case loc_timestamp df i of Inl e \<Rightarrow> Inl e | Inr t \<Rightarrow> Inr (strftime_HM t)))"

definition extremum :: "rat option \<Rightarrow> nat \<Rightarrow> npfloat" where
  "extremum v nd = (case v of None \<Rightarrow> NaN | Some x \<Rightarrow> Fin (py_round x nd))"

definition soc_swing_of :: "row list \<Rightarrow> npfloat" where
  "soc_swing_of df =
     (case (series_max (col SOC_opt df), series_min (col SOC_opt df)) of
        (Some hi, Some lo) \<Rightarrow> Fin (py_round (hi - lo) 2)
      | _ \<Rightarrow> NaN)"

definition pct :: "rat \<Rightarrow> rat \<Rightarrow> npfloat" where
  "pct a b = np_round (np_scale (np_div a b) 100) 1"

definition summary :: "row list \<Rightarrow> py_error + (string \<times> pyval) list" where
  "summary df =
     (case df of
        [] \<Rightarrow> Inl (IndexError ''single positional indexer is out-of-bounds'')
      | r0 # _ \<Rightarrow>
        (case time_at df (idxmax (col foreign_power_costs df)) of Inl e \<Rightarrow> Inl e | Inr peak_t \<Rightarrow>
        (case time_at df (idxmin (col foreign_power_costs df)) of Inl e \<Rightarrow> Inl e | Inr cheap_t \<Rightarrow>
        (case time_at df (idxmax (col pv_profile df)) of Inl e \<Rightarrow> Inl e | Inr sunny_t \<Rightarrow>
         Inr [
          (''date'', Str (str_date (timestamp r0))),
          (''total_solar'', Num (Fin (py_round (series_sum (col pv_profile df)) 1))),
          (''solar_self_consumed'', Num (Fin (py_round (series_sum (col pv_utilized_kw_opt df)) 1))),
          (''solar_exported'', Num (Fin (py_round (series_sum (col pv_to_grid_kw_opt df)) 1))),
          (''battery_charged'', Num (Fin (py_round
              (series_sum (col pv_to_battery_kw_opt df) + series_sum (col grid_to_battery_kw_opt df)) 1))),
          (''battery_discharged'', Num (Fin (py_round
              (series_sum (col battery_to_load_kw_opt df) + series_sum (col battery_to_grid_kw_opt df)) 1))),
          (''grid_import'', Num (Fin (py_round (series_sum (col grid_import_kw_opt df)) 1))),
          (''grid_export'', Num (Fin (py_round (series_sum (col grid_export_kw_opt df)) 1))),
          (''savings'', Num (Fin (py_round
              (series_sum (col electricity_savings_step df) + series_sum (col feed_in_revenue_delta_step df)) 2))),
          (''peak_price_time'', Str peak_t),
          (''peak_price'', Num (extremum (series_max (col foreign_power_costs df)) 2)),
          (''cheap_price_time'', Str cheap_t),
          (''cheap_price'', Num (extremum (series_min (col foreign_power_costs df)) 2)),
          (''sunniest_hour'', Str sunny_t),
          (''solar_coverage_pct'', Num (pct (series_sum (col pv_utilized_kw_opt df))
                                            (series_sum (col gross_load df)))),
          (''export_ratio_pct'',
             Num (if 0 < series_sum (col pv_profile df)
                  then pct (series_sum (col pv_to_grid_kw_opt df)) (series_sum (col pv_profile df))
                  else Fin 0)),
          (''battery_contribution_pct'', Num (pct
              (series_sum (col battery_to_load_kw_opt df) + series_sum (col battery_to_grid_kw_opt df))
              (series_sum (col net_load df)))),
          (''soc_swing'', Num (soc_swing_of df)),
          (''grid_dependence_pct'', Num (pct (series_sum (col grid_import_kw_opt df))
                                             (series_sum (col gross_load df))))]))))"

section \<open>Formatting of numbers\<close>

text \<open>The decimal digits of a natural number.\<close>

fun digits :: "nat \<Rightarrow> string" where
  "digits n = (if n < 10 then [digit_char n] else digits (n div 10) @ [digit_char n])"

declare digits.simps [simp del]

definition zero_pad :: "nat \<Rightarrow> string \<Rightarrow> string" where
  "zero_pad w s = replicate (w - length s) (CHR ''0'') @ s"

text \<open>
  \<open>format(x, '.<nd>f')\<close> of a finite float: the value rounded to \<open>nd\<close> decimals, ties
  to even, with the sign of \<open>x\<close>.
\<close>

definition format_fixed :: "nat \<Rightarrow> rat \<Rightarrow> string" where
  "format_fixed nd x =
     (let m = nat (round_half_even (\<bar>x\<bar> * 10 ^ nd))
      in (if x < 0 then ''-'' else []) @ digits (m div 10 ^ nd) @
         (if nd = 0 then [] else ''.'' @ zero_pad nd (digits (m mod 10 ^ nd))))"


text \<open>
  \<open>str(x)\<close> of a float that holds a decimal number of at most two places, as every
  rounded metric does: the shortest decimal form, with at least one decimal. Exponent
  notation (from \<open>1e16\<close> on) is not modelled.
\<close>

fun str_float :: "npfloat \<Rightarrow> string" where
  "str_float (Fin x) =
     (let m = nat (round_half_even (\<bar>x\<bar> * 100)); f = m mod 100
      in (if x < 0 then ''-'' else []) @ digits (m div 100) @ ''.'' @
         (if f mod 10 = 0 then [digit_char (f div 10)] else zero_pad 2 (digits f)))"
| "str_float PInf = ''inf''"
| "str_float NInf = ''-inf''"
| "str_float NaN = ''nan''"

text \<open>A replacement field of an f-string: \<open>{v}\<close> and \<open>{v:.1f}\<close>.\<close>

fun fmt_str :: "pyval \<Rightarrow> string" where
  "fmt_str (Str s) = s"
| "fmt_str (Num x) = str_float x"

fun fmt_f1 :: "pyval \<Rightarrow> py_error + string" where
  "fmt_f1 (Num (Fin x)) = Inr (format_fixed 1 x)"
| "fmt_f1 (Num PInf) = Inr ''inf''"
| "fmt_f1 (Num NInf) = Inr ''-inf''"
| "fmt_f1 (Num NaN) = Inr ''nan''"
| "fmt_f1 (Str s) =
     Inl (OtherError (''Unknown format code '' @ [CHR 0x27] @ ''f'' @ [CHR 0x27] @
                      '' for object of type '' @ [CHR 0x27] @ ''str'' @ [CHR 0x27]))"

definition fmt_opt_f1 :: "rat option \<Rightarrow> py_error + string" where
  "fmt_opt_f1 v =
     (case v of
        None \<Rightarrow> Inl (OtherError ''unsupported format string passed to NoneType.__format__'')
      | Some x \<Rightarrow> Inr (format_fixed 1 x))"

section \<open>The world around the scripts\<close>

text \<open>
  Sequencing of steps that may raise: the first exception ends the sequence.
\<close>

definition bind_err :: "'e + 'a \<Rightarrow> ('a \<Rightarrow> 'e + 'b) \<Rightarrow> 'e + 'b" where
  "bind_err m f = (case m of Inl e \<Rightarrow> Inl e | Inr x \<Rightarrow> f x)"

text \<open>
  The daily values of the weather forecast that the bot reads, index 0 for today and 1
  for tomorrow; \<open>None\<close> is a JSON \<open>null\<close>.
\<close>

record weather_json =
  sunshine_duration_0 :: "rat option"
  sunshine_duration_1 :: "rat option"
  temperature_2m_max_0 :: "rat option"
  temperature_2m_min_0 :: "rat option"
  temperature_2m_max_1 :: "rat option"
  precipitation_sum_0 :: "rat option"
  precipitation_sum_1 :: "rat option"

record weather_summary =
  sun_hours_today :: rat
  sun_hours_tomorrow :: rat
  max_temp_today :: "rat option"
  min_temp_today :: "rat option"
  max_temp_tomorrow :: "rat option"
  precipitation_today :: "rat option"
  precipitation_tomorrow :: "rat option"

text \<open>What the text service is sent: the weather lines of the prompt and the summary.\<close>

record narrator_request =
  weather_context :: "string list"
  summary_json :: "(string \<times> pyval) list"

text \<open>
  Everything a run reads from outside: the process environment, the outcome of loading
  \<open>data/day1.json\<close> and parsing its timestamps (an exception or the frame), the weather
  request (\<open>None\<close> when the request, the parsing or an index raises), the text service
  and the plotting backend.
\<close>

record world =
  environ :: "string \<Rightarrow> string option"
  data_file :: "py_error + row list"
  weather_service :: "weather_json option"
  narrator :: "narrator_request \<Rightarrow> py_error + string"
  chart_backend :: "row list \<Rightarrow> py_error option"

text \<open>\<open>os.environ.get('ANTHROPIC_API_KEY')\<close> and the test \<open>if not api_key\<close>.\<close>

definition api_key :: "world \<Rightarrow> string option" where
  "api_key w = environ w ''ANTHROPIC_API_KEY''"

definition not_api_key :: "string option \<Rightarrow> bool" where
  "not_api_key k = (case k of None \<Rightarrow> True | Some s \<Rightarrow> s = [])"

section \<open>The Telegram bot (telegram\_bot.py)\<close>

subsection \<open>generate\_daily\_report, lines 283-439\<close>

text \<open>
  The weather block, lines 291-314. Dividing a \<open>null\<close> sunshine duration raises inside
  the \<open>try\<close>; the bare \<open>except\<close> then sets both variables to the constants.
\<close>

definition fallback_weather :: "rat \<times> weather_summary" where
  "fallback_weather =
     (5, \<lparr>sun_hours_today = 5, sun_hours_tomorrow = 6, max_temp_today = Some 20,
          min_temp_today = Some 10, max_temp_tomorrow = Some 22,
          precipitation_today = Some 0, precipitation_tomorrow = Some 0\<rparr>)"

definition fetch_weather :: "weather_json option \<Rightarrow> rat \<times> weather_summary" where
  "fetch_weather resp =
     (case resp of
        None \<Rightarrow> fallback_weather
      | Some j \<Rightarrow>
          (case sunshine_duration_1 j of
             None \<Rightarrow> fallback_weather
           | Some s1 \<Rightarrow>
               (case sunshine_duration_0 j of
                  None \<Rightarrow> fallback_weather
                | Some s0 \<Rightarrow>
                    (s1 / 3600,
                     \<lparr>sun_hours_today = s0 / 3600, sun_hours_tomorrow = s1 / 3600,
                      max_temp_today = temperature_2m_max_0 j,
                      min_temp_today = temperature_2m_min_0 j,
                      max_temp_tomorrow = temperature_2m_max_1 j,
                      precipitation_today = precipitation_sum_0 j,
                      precipitation_tomorrow = precipitation_sum_1 j\<rparr>))))"

text \<open>
  The summary of lines 317-338: the entries of dataclean.py, expression by expression,
  followed by \<open>sun_hours_tomorrow\<close>.
\<close>

definition report_summary :: "row list \<Rightarrow> rat \<Rightarrow> py_error + (string \<times> pyval) list" where
  "report_summary df sun =
     bind_err (summary df) (\<lambda>s. Inr (s @ [(''sun_hours_tomorrow'', Num (Fin sun))]))"

text \<open>
  The weather lines of the prompt, lines 354-359, each formatted with \<open>.1f\<close>. The fixed
  instruction text around them is not reproduced.
\<close>

definition prompt_weather :: "weather_summary \<Rightarrow> py_error + string list" where
  "prompt_weather ws =
     bind_err (fmt_opt_f1 (min_temp_today ws)) (\<lambda>tmin.
     bind_err (fmt_opt_f1 (max_temp_today ws)) (\<lambda>tmax.
     bind_err (fmt_opt_f1 (max_temp_tomorrow ws)) (\<lambda>tmax1.
     bind_err (fmt_opt_f1 (precipitation_today ws)) (\<lambda>p0.
     bind_err (fmt_opt_f1 (precipitation_tomorrow ws)) (\<lambda>p1.
       Inr [format_fixed 1 (sun_hours_today ws), format_fixed 1 (sun_hours_tomorrow ws),
            tmin, tmax, tmax1, p0, p1])))))"

text \<open>
  The templated report of lines 378-388 and 403-413, over the values of its replacement
  fields as formatted. The two copies differ only in the indentation that closes the
  literal, \<open>ind\<close> spaces.
\<close>

record report_fields =
  f_date :: string
  f_total_solar :: string
  f_savings :: string
  f_charged :: string
  f_discharged :: string
  f_peak_price :: string
  f_peak_time :: string
  f_sun_hours :: string

definition fallback_text :: "nat \<Rightarrow> report_fields \<Rightarrow> string" where
  "fallback_text ind fs =
     [CHR 0x0A, CHR 0xF0, CHR 0x9F, CHR 0x94, CHR 0x8B] @ '' **Batterie-Report f'' @
     [CHR 0xC3, CHR 0xBC] @ ''r '' @ f_date fs @ ''**'' @ [CHR 0x0A, CHR 0x0A] @
     ''**Solar-Produktion:** '' @ f_total_solar fs @ '' kWh'' @ [CHR 0x0A] @
     ''**Einsparungen:** '' @ f_savings fs @ [CHR 0xE2, CHR 0x82, CHR 0xAC, CHR 0x0A] @
     ''**Batterie geladen:** '' @ f_charged fs @ '' kWh'' @ [CHR 0x0A] @
     ''**Batterie entladen:** '' @ f_discharged fs @ '' kWh'' @ [CHR 0x0A] @
     ''**Peak-Preis:** '' @ f_peak_price fs @ [CHR 0xE2, CHR 0x82, CHR 0xAC] @ ''/kWh um '' @
     f_peak_time fs @ [CHR 0x0A, CHR 0x0A] @ ''**Morgen erwartet:** '' @ f_sun_hours fs @
     '' Sonnenstunden '' @
     [CHR 0xE2, CHR 0x98, CHR 0x80, CHR 0xEF, CHR 0xB8, CHR 0x8F, CHR 0x0A] @
     replicate ind (CHR 0x20)"

definition lookup :: "(string \<times> pyval) list \<Rightarrow> string \<Rightarrow> py_error + pyval" where
  "lookup s k = (case map_of s k of None \<Rightarrow> Inl (KeyError k) | Some v \<Rightarrow> Inr v)"

definition fallback_message :: "nat \<Rightarrow> (string \<times> pyval) list \<Rightarrow> py_error + string" where
  "fallback_message ind s =
     bind_err (lookup s ''date'') (\<lambda>date_v.
     bind_err (lookup s ''total_solar'') (\<lambda>total_solar_v.
     bind_err (lookup s ''savings'') (\<lambda>savings_v.
     bind_err (lookup s ''battery_charged'') (\<lambda>charged_v.
     bind_err (lookup s ''battery_discharged'') (\<lambda>discharged_v.
     bind_err (lookup s ''peak_price'') (\<lambda>peak_price_v.
     bind_err (lookup s ''peak_price_time'') (\<lambda>peak_time_v.
     bind_err (lookup s ''sun_hours_tomorrow'') (\<lambda>sun_v.
     bind_err (fmt_f1 sun_v) (\<lambda>sun_s.
       Inr (fallback_text ind
                \<lparr>f_date = fmt_str date_v,
                 f_total_solar = fmt_str total_solar_v,
                 f_savings = fmt_str savings_v,
                 f_charged = fmt_str charged_v,
                 f_discharged = fmt_str discharged_v,
                 f_peak_price = fmt_str peak_price_v,
                 f_peak_time = fmt_str peak_time_v,
                 f_sun_hours = sun_s\<rparr>))))))))))"

text \<open>
  Lines 375-413: without a key the template; with a key the text service, and the
  template when the call raises (a bare \<open>except\<close>).
\<close>

definition report_text ::
  "world \<Rightarrow> string list \<Rightarrow> (string \<times> pyval) list \<Rightarrow> py_error + string" where
  "report_text w p s =
     (if not_api_key (api_key w) then fallback_message 16 s
      else (case narrator w \<lparr>weather_context = p, summary_json = s\<rparr> of
              Inr text \<Rightarrow> Inr text
            | Inl e \<Rightarrow> fallback_message 20 s))"

record report =
  message :: string
  chart_path :: "string option"

text \<open>The body of the outer \<open>try\<close>, lines 286-433.\<close>

definition report_body :: "world \<Rightarrow> py_error + report" where
  "report_body w =
     bind_err (data_file w) (\<lambda>df.
     (case fetch_weather (weather_service w) of (sun, ws) \<Rightarrow>
     bind_err (report_summary df sun) (\<lambda>s.
     bind_err (prompt_weather ws) (\<lambda>p.
     bind_err (report_text w p s) (\<lambda>text.
       (case chart_backend w df of
          Some e \<Rightarrow> Inl e
        | None \<Rightarrow> Inr \<lparr>message = text, chart_path = Some ''telegram_chart.png''\<rparr>))))))"

definition report_error_prefix :: string where
  "report_error_prefix =
     [CHR 0xE2, CHR 0x9D, CHR 0x8C] @ '' Fehler beim Generieren des Reports: ''"

text \<open>
  The function with its handler, lines 435-439: \<open>except Exception as e\<close> turns every
  exception of the body into a result.
\<close>

definition generate_daily_report :: "world \<Rightarrow> report" where
  "generate_daily_report w =
     (case report_body w of
        Inr r \<Rightarrow> r
      | Inl e \<Rightarrow> \<lparr>message = report_error_prefix @ str_of_error e, chart_path = None\<rparr>)"

subsection \<open>status\_command, lines 105-143\<close>









subsection \<open>The bot token, lines 447-455\<close>

text \<open>
  The main block binds \<open>BOT_TOKEN\<close> to a string literal and passes it to the bot. The
  characters of the credential are elided here; nothing below depends on them.
\<close>

definition BOT_TOKEN :: string where
  "BOT_TOKEN = ''(bot token literal of telegram_bot.py line 449)''"

definition bot_token :: "world \<Rightarrow> string" where
  "bot_token w = BOT_TOKEN"

section \<open>The script dataclean.py after the summary\<close>




text \<open>
  Line 119: the webhook address, which carries the webhook's token, is a string literal
  too; its characters are elided as well.
\<close>

definition WEBHOOK_URL :: string where
  "WEBHOOK_URL = ''(webhook address literal of dataclean.py line 119)''"

definition webhook_target :: "world \<Rightarrow> string" where
  "webhook_target w = WEBHOOK_URL"

section \<open>Vocabulary of the specification\<close>

text \<open>
  Row \<open>k\<close> is the first row in timestamp order whose column \<open>f\<close> holds \<open>v\<close>: every
  other row holding \<open>v\<close> has a strictly later timestamp.
\<close>

definition first_in_time :: "row list \<Rightarrow> (row \<Rightarrow> rat) \<Rightarrow> rat \<Rightarrow> nat \<Rightarrow> bool" where
  "first_in_time df f v k \<longleftrightarrow>
     k < length df \<and> f (df ! k) = v \<and>
     (\<forall>j<length df. j \<noteq> k \<and> f (df ! j) = v \<longrightarrow>
        ts_key (timestamp (df ! k)) < ts_key (timestamp (df ! j)))"

text \<open>The rows come with strictly increasing timestamps.\<close>

definition increasing_timestamps :: "row list \<Rightarrow> bool" where
  "increasing_timestamps df \<longleftrightarrow> sorted_wrt (\<lambda>a b. ts_key a < ts_key b) (map timestamp df)"

section \<open>Example data\<close>

text \<open>
  A row of 7 May 2024 at the full hour \<open>h\<close>, with solar production \<open>pv\<close>, price
  \<open>cost\<close>, state of charge \<open>soc\<close> and load \<open>ld\<close>; the other columns derive from these.
\<close>

definition sample_row :: "nat \<Rightarrow> rat \<Rightarrow> rat \<Rightarrow> rat \<Rightarrow> rat \<Rightarrow> row" where
  "sample_row h pv cost soc ld =
     \<lparr>timestamp = \<lparr>year = 2024, month = 5, day = 7, hour = h, minute = 0, second = 0\<rparr>,
      pv_profile = pv, pv_utilized_kw_opt = pv / 2, pv_to_grid_kw_opt = pv / 4,
      pv_to_battery_kw_opt = pv / 4, grid_to_battery_kw_opt = 1 / 8,
      battery_to_load_kw_opt = 3 / 10, battery_to_grid_kw_opt = 1 / 20,
      grid_import_kw_opt = ld / 2, grid_export_kw_opt = pv / 4,
      gross_load = ld, net_load = ld / 2,
      foreign_power_costs = cost, electricity_savings_step = cost * pv / 2,
      feed_in_revenue_delta_step = 1 / 100, SOC_opt = soc\<rparr>"

definition tie_day :: "row list" where
  "tie_day = [sample_row 8 0 (3 / 10) (1 / 5) 2, sample_row 9 5 (3 / 10) (1 / 2) 2]"

definition sample_day :: "row list" where
  "sample_day = [sample_row 8 0 (3 / 10) (1 / 5) 2,
                 sample_row 9 5 (3 / 10) (1 / 2) 2,
                 sample_row 10 5 (1 / 10) (4 / 5) 1]"

text \<open>Days without load, without solar production, and with a negative production reading.\<close>

definition zero_load_day :: "row list" where
  "zero_load_day = [sample_row 8 5 (3 / 10) (1 / 5) 0, sample_row 9 5 (1 / 10) (1 / 2) 0]"




text \<open>
  Worlds for the examples: no key and no network; a key but a failing text service; a
  working text service; a data file that cannot be read.
\<close>

definition offline_world :: world where
  "offline_world =
     \<lparr>environ = (\<lambda>k. None), data_file = Inr sample_day, weather_service = None,
      narrator = (\<lambda>r. Inl (OtherError ''service unavailable'')),
      chart_backend = (\<lambda>df. None)\<rparr>"

definition failing_service_world :: world where
  "failing_service_world =
     offline_world\<lparr>environ := (\<lambda>k. if k = ''ANTHROPIC_API_KEY'' then Some ''key'' else None)\<rparr>"

definition online_world :: world where
  "online_world = failing_service_world\<lparr>narrator := (\<lambda>r. Inr ''A sunny day.'')\<rparr>"

definition missing_file_world :: world where
  "missing_file_world =
     online_world\<lparr>data_file := Inl (OtherError ''File data/day1.json does not exist'')\<rparr>"

section \<open>Properties of the library operations\<close>

lemma series_max_Max: "series_max (x # xs) = Some (Max (set (x # xs)))"
  using Max.set_eq_fold[of x xs] by simp

lemma series_min_Min: "series_min (x # xs) = Some (Min (set (x # xs)))"
  using Min.set_eq_fold[of x xs] by simp

lemma idxmax_scan_first:
  assumes "i = length pre" "best < length pre" "pre ! best = bv"
    and "\<forall>j<length pre. pre ! j \<le> bv" and "\<forall>j<best. pre ! j < bv"
  shows "idxmax_scan i best bv xs < length (pre @ xs) \<and>
         (\<forall>j<length (pre @ xs). (pre @ xs) ! j \<le> (pre @ xs) ! idxmax_scan i best bv xs) \<and>
         (\<forall>j<idxmax_scan i best bv xs. (pre @ xs) ! j < (pre @ xs) ! idxmax_scan i best bv xs)"
  using assms
proof (induction xs arbitrary: i best bv pre)
  case Nil
  then show ?case by simp
next
  case (Cons x xs)
  show ?case
  proof (cases "bv < x")
    case True
    have a: "Suc i = length (pre @ [x])" using Cons.prems by simp
    have b: "i < length (pre @ [x])" using Cons.prems by simp
    have c: "(pre @ [x]) ! i = x" using Cons.prems by simp
    have d: "\<forall>j<length (pre @ [x]). (pre @ [x]) ! j \<le> x"
      using Cons.prems True by (auto simp: nth_append less_Suc_eq intro: less_imp_le order_trans)
    have e: "\<forall>j<i. (pre @ [x]) ! j < x"
      using Cons.prems True by (auto simp: nth_append intro: le_less_trans)
    from Cons.IH[OF a b c d e] True show ?thesis by simp
  next
    case False
    have a: "Suc i = length (pre @ [x])" using Cons.prems by simp
    have b: "best < length (pre @ [x])" using Cons.prems by simp
    have c: "(pre @ [x]) ! best = bv" using Cons.prems by (simp add: nth_append)
    have d: "\<forall>j<length (pre @ [x]). (pre @ [x]) ! j \<le> bv"
      using Cons.prems False by (auto simp: nth_append less_Suc_eq)
    have e: "\<forall>j<best. (pre @ [x]) ! j < bv"
      using Cons.prems by (auto simp: nth_append)
    from Cons.IH[OF a b c d e] False show ?thesis by simp
  qed
qed

lemma idxmax_first:
  assumes "xs \<noteq> []"
  shows "\<exists>k. idxmax xs = Some k \<and> k < length xs \<and> (\<forall>j<length xs. xs ! j \<le> xs ! k) \<and> (\<forall>j<k. xs ! j < xs ! k)"
proof -
  obtain x ys where xs: "xs = x # ys" using assms by (cases xs) auto
  have "idxmax_scan 1 0 x ys < length ([x] @ ys) \<and>
         (\<forall>j<length ([x] @ ys). ([x] @ ys) ! j \<le> ([x] @ ys) ! idxmax_scan 1 0 x ys) \<and>
         (\<forall>j<idxmax_scan 1 0 x ys. ([x] @ ys) ! j < ([x] @ ys) ! idxmax_scan 1 0 x ys)"
    by (rule idxmax_scan_first) simp_all
  then show ?thesis by (simp add: xs)
qed

lemma idxmin_scan_first:
  assumes "i = length pre" "best < length pre" "pre ! best = bv"
    and "\<forall>j<length pre. bv \<le> pre ! j" and "\<forall>j<best. bv < pre ! j"
  shows "idxmin_scan i best bv xs < length (pre @ xs) \<and>
         (\<forall>j<length (pre @ xs). (pre @ xs) ! idxmin_scan i best bv xs \<le> (pre @ xs) ! j) \<and>
         (\<forall>j<idxmin_scan i best bv xs. (pre @ xs) ! idxmin_scan i best bv xs < (pre @ xs) ! j)"
  using assms
proof (induction xs arbitrary: i best bv pre)
  case Nil
  then show ?case by simp
next
  case (Cons x xs)
  show ?case
  proof (cases "x < bv")
    case True
    have a: "Suc i = length (pre @ [x])" using Cons.prems by simp
    have b: "i < length (pre @ [x])" using Cons.prems by simp
    have c: "(pre @ [x]) ! i = x" using Cons.prems by simp
    have d: "\<forall>j<length (pre @ [x]). x \<le> (pre @ [x]) ! j"
      using Cons.prems True by (auto simp: nth_append less_Suc_eq intro: less_imp_le order_trans)
    have e: "\<forall>j<i. x < (pre @ [x]) ! j"
      using Cons.prems True by (auto simp: nth_append intro: less_le_trans)
    from Cons.IH[OF a b c d e] True show ?thesis by simp
  next
    case False
    have a: "Suc i = length (pre @ [x])" using Cons.prems by simp
    have b: "best < length (pre @ [x])" using Cons.prems by simp
    have c: "(pre @ [x]) ! best = bv" using Cons.prems by (simp add: nth_append)
    have d: "\<forall>j<length (pre @ [x]). bv \<le> (pre @ [x]) ! j"
      using Cons.prems False by (auto simp: nth_append less_Suc_eq)
    have e: "\<forall>j<best. bv < (pre @ [x]) ! j"
      using Cons.prems by (auto simp: nth_append)
    from Cons.IH[OF a b c d e] False show ?thesis by simp
  qed
qed

lemma idxmin_first:
  assumes "xs \<noteq> []"
  shows "\<exists>k. idxmin xs = Some k \<and> k < length xs \<and> (\<forall>j<length xs. xs ! k \<le> xs ! j) \<and> (\<forall>j<k. xs ! k < xs ! j)"
proof -
  obtain x ys where xs: "xs = x # ys" using assms by (cases xs) auto
  have "idxmin_scan 1 0 x ys < length ([x] @ ys) \<and>
         (\<forall>j<length ([x] @ ys). ([x] @ ys) ! idxmin_scan 1 0 x ys \<le> ([x] @ ys) ! j) \<and>
         (\<forall>j<idxmin_scan 1 0 x ys. ([x] @ ys) ! idxmin_scan 1 0 x ys < ([x] @ ys) ! j)"
    by (rule idxmin_scan_first) simp_all
  then show ?thesis by (simp add: xs)
qed

lemma time_at_idxmax:
  assumes "df \<noteq> []"
  shows "\<exists>k. idxmax (col f df) = Some k \<and> k < length df \<and>
             time_at df (idxmax (col f df)) = Inr (strftime_HM (timestamp (df ! k)))"
proof -
  from idxmax_first[of "col f df"] assms obtain k where
    "idxmax (col f df) = Some k" "k < length df" by (auto simp: col_def)
  then show ?thesis by (simp add: time_at_def loc_timestamp_def)
qed

lemma time_at_idxmin:
  assumes "df \<noteq> []"
  shows "\<exists>k. idxmin (col f df) = Some k \<and> k < length df \<and>
             time_at df (idxmin (col f df)) = Inr (strftime_HM (timestamp (df ! k)))"
proof -
  from idxmin_first[of "col f df"] assms obtain k where
    "idxmin (col f df) = Some k" "k < length df" by (auto simp: col_def)
  then show ?thesis by (simp add: time_at_def loc_timestamp_def)
qed

lemma summary_times:
  assumes "df \<noteq> []"
  obtains kp kc ks where
    "time_at df (idxmax (col foreign_power_costs df)) = Inr (strftime_HM (timestamp (df ! kp)))"
    "time_at df (idxmin (col foreign_power_costs df)) = Inr (strftime_HM (timestamp (df ! kc)))"
    "time_at df (idxmax (col pv_profile df)) = Inr (strftime_HM (timestamp (df ! ks)))"
  using time_at_idxmax[OF assms, of foreign_power_costs] time_at_idxmin[OF assms, of foreign_power_costs]
    time_at_idxmax[OF assms, of pv_profile] by blast


lemma round_half_even_nonneg: "0 \<le> x \<Longrightarrow> 0 \<le> round_half_even x"
  by (auto simp: round_half_even_def Let_def)

lemma py_round_nonneg: "0 \<le> x \<Longrightarrow> 0 \<le> py_round x nd"
  by (simp add: py_round_def round_half_even_nonneg)

lemma col_max: "df \<noteq> [] \<Longrightarrow> series_max (col f df) = Some (Max (f ` set df))"
  by (cases df) (simp_all add: col_def series_max_Max del: series_max.simps)

lemma col_min: "df \<noteq> [] \<Longrightarrow> series_min (col f df) = Some (Min (f ` set df))"
  by (cases df) (simp_all add: col_def series_min_Min del: series_min.simps)

lemma time_idxmax:
  assumes "df \<noteq> []"
  shows "\<exists>k. time_at df (idxmax (col f df)) = Inr (strftime_HM (timestamp (df ! k))) \<and>
             k < length df \<and> f (df ! k) = Max (f ` set df) \<and> (\<forall>j<k. f (df ! j) < f (df ! k))"
proof -
  from idxmax_first[of "col f df"] assms obtain k where k:
    "idxmax (col f df) = Some k" "k < length df"
    "\<forall>j<length df. f (df ! j) \<le> f (df ! k)" "\<forall>j<k. f (df ! j) < f (df ! k)"
    by (auto simp: col_def)
  have "Max (f ` set df) = f (df ! k)"
  proof (rule Max_eqI)
    show "finite (f ` set df)" by simp
    show "\<And>y. y \<in> f ` set df \<Longrightarrow> y \<le> f (df ! k)" using k(3) by (auto simp: in_set_conv_nth)
    show "f (df ! k) \<in> f ` set df" using k(2) by simp
  qed
  with k show ?thesis by (auto simp: time_at_def loc_timestamp_def)
qed

lemma time_idxmin:
  assumes "df \<noteq> []"
  shows "\<exists>k. time_at df (idxmin (col f df)) = Inr (strftime_HM (timestamp (df ! k))) \<and>
             k < length df \<and> f (df ! k) = Min (f ` set df) \<and> (\<forall>j<k. f (df ! k) < f (df ! j))"
proof -
  from idxmin_first[of "col f df"] assms obtain k where k:
    "idxmin (col f df) = Some k" "k < length df"
    "\<forall>j<length df. f (df ! k) \<le> f (df ! j)" "\<forall>j<k. f (df ! k) < f (df ! j)"
    by (auto simp: col_def)
  have "Min (f ` set df) = f (df ! k)"
  proof (rule Min_eqI)
    show "finite (f ` set df)" by simp
    show "\<And>y. y \<in> f ` set df \<Longrightarrow> f (df ! k) \<le> y" using k(3) by (auto simp: in_set_conv_nth)
    show "f (df ! k) \<in> f ` set df" using k(2) by simp
  qed
  with k show ?thesis by (auto simp: time_at_def loc_timestamp_def)
qed

lemma first_in_timeI:
  assumes inc: "increasing_timestamps df" and k: "k < length df" "f (df ! k) = v"
    and before: "\<forall>j<k. f (df ! j) \<noteq> v"
  shows "first_in_time df f v k"
  unfolding first_in_time_def
proof (intro conjI allI impI)
  fix j assume j: "j < length df" "j \<noteq> k \<and> f (df ! j) = v"
  with before have "k < j" by (metis linorder_neqE_nat)
  from inc have "sorted_wrt (\<lambda>a b. ts_key (timestamp a) < ts_key (timestamp b)) df"
    unfolding increasing_timestamps_def by (simp add: sorted_wrt_map)
  from sorted_wrt_nth_less[OF this \<open>k < j\<close> j(1)]
  show "ts_key (timestamp (df ! k)) < ts_key (timestamp (df ! j))" .
qed (use k in auto)



lemma pct_zero_divisor:
  "pct a 0 = (if a = 0 then NaN else if 0 < a then PInf else NInf)"
  by (simp add: pct_def np_div_def)


section \<open>Lemmas about the bot\<close>

lemma bind_err_Inr [simp]: "bind_err (Inr x) f = f x"
  by (simp add: bind_err_def)

lemma bind_err_Inl [simp]: "bind_err (Inl e) f = Inl e"
  by (simp add: bind_err_def)





section \<open>Properties of the daily summary\<close>



text \<open>
  C4. With strictly increasing timestamps, each time-of-day metric is the HH:MM of the
  first row in timestamp order that attains the extremal value: \<open>peak_price_time\<close> for
  the maximum of \<open>foreign_power_costs\<close>, \<open>cheap_price_time\<close> for its minimum,
  \<open>sunniest_hour\<close> for the maximum of \<open>pv_profile\<close>. Two rows of equal maximal price at
  08:00 and 09:00 give 08:00.
\<close>

theorem C4_first_extremal_row:
  assumes "df \<noteq> []" and "increasing_timestamps df"
  shows "\<exists>s kp kc ks. summary df = Inr s \<and>
    first_in_time df foreign_power_costs (Max (foreign_power_costs ` set df)) kp \<and>
    map_of s ''peak_price_time'' = Some (Str (strftime_HM (timestamp (df ! kp)))) \<and>
    first_in_time df foreign_power_costs (Min (foreign_power_costs ` set df)) kc \<and>
    map_of s ''cheap_price_time'' = Some (Str (strftime_HM (timestamp (df ! kc)))) \<and>
    first_in_time df pv_profile (Max (pv_profile ` set df)) ks \<and>
    map_of s ''sunniest_hour'' = Some (Str (strftime_HM (timestamp (df ! ks))))"
proof -
  obtain r0 rs where df: "df = r0 # rs" using assms(1) by (cases df) auto
  from time_idxmax[OF assms(1), of foreign_power_costs] obtain kp where kp:
    "time_at df (idxmax (col foreign_power_costs df)) = Inr (strftime_HM (timestamp (df ! kp)))"
    "kp < length df" "foreign_power_costs (df ! kp) = Max (foreign_power_costs ` set df)"
    "\<forall>j<kp. foreign_power_costs (df ! j) < foreign_power_costs (df ! kp)" by blast
  from time_idxmin[OF assms(1), of foreign_power_costs] obtain kc where kc:
    "time_at df (idxmin (col foreign_power_costs df)) = Inr (strftime_HM (timestamp (df ! kc)))"
    "kc < length df" "foreign_power_costs (df ! kc) = Min (foreign_power_costs ` set df)"
    "\<forall>j<kc. foreign_power_costs (df ! kc) < foreign_power_costs (df ! j)" by blast
  from time_idxmax[OF assms(1), of pv_profile] obtain ks where ks:
    "time_at df (idxmax (col pv_profile df)) = Inr (strftime_HM (timestamp (df ! ks)))"
    "ks < length df" "pv_profile (df ! ks) = Max (pv_profile ` set df)"
    "\<forall>j<ks. pv_profile (df ! j) < pv_profile (df ! ks)" by blast
  have fp: "first_in_time df foreign_power_costs (Max (foreign_power_costs ` set df)) kp"
    using kp by (intro first_in_timeI[OF assms(2)]) auto
  have fc: "first_in_time df foreign_power_costs (Min (foreign_power_costs ` set df)) kc"
    using kc by (intro first_in_timeI[OF assms(2)]) auto
  have fs: "first_in_time df pv_profile (Max (pv_profile ` set df)) ks"
    using ks by (intro first_in_timeI[OF assms(2)]) auto
  obtain s where s: "summary df = Inr s"
    "map_of s ''peak_price_time'' = Some (Str (strftime_HM (timestamp (df ! kp))))"
    "map_of s ''cheap_price_time'' = Some (Str (strftime_HM (timestamp (df ! kc))))"
    "map_of s ''sunniest_hour'' = Some (Str (strftime_HM (timestamp (df ! ks))))"
    using kp(1) kc(1) ks(1) unfolding df by (simp add: summary_def)
  with fp fc fs show ?thesis by blast
qed


theorem C4_first_extremal_row_witness:
  "tie_day \<noteq> [] \<and> increasing_timestamps tie_day \<and>
   map foreign_power_costs tie_day = [3 / 10, 3 / 10] \<and>
   map (strftime_HM \<circ> timestamp) tie_day = [''08:00'', ''09:00''] \<and>
   map_of (projr (summary tie_day)) ''peak_price_time'' = Some (Str ''08:00'') \<and>
   (\<exists>s kp kc ks. summary tie_day = Inr s \<and>
    first_in_time tie_day foreign_power_costs (Max (foreign_power_costs ` set tie_day)) kp \<and>
    map_of s ''peak_price_time'' = Some (Str (strftime_HM (timestamp (tie_day ! kp)))) \<and>
    first_in_time tie_day foreign_power_costs (Min (foreign_power_costs ` set tie_day)) kc \<and>
    map_of s ''cheap_price_time'' = Some (Str (strftime_HM (timestamp (tie_day ! kc)))) \<and>
    first_in_time tie_day pv_profile (Max (pv_profile ` set tie_day)) ks \<and>
    map_of s ''sunniest_hour'' = Some (Str (strftime_HM (timestamp (tie_day ! ks)))))"
proof -
  have ne: "tie_day \<noteq> []" by (simp add: tie_day_def)
  have inc: "increasing_timestamps tie_day"
    by (simp add: increasing_timestamps_def tie_day_def sample_row_def ts_key_def)
  have c: "map foreign_power_costs tie_day = [3 / 10, 3 / 10]"
    by (simp add: tie_day_def sample_row_def)
  have t: "map (strftime_HM \<circ> timestamp) tie_day = [''08:00'', ''09:00'']" by code_simp
  have p: "map_of (projr (summary tie_day)) ''peak_price_time'' = Some (Str ''08:00'')" by code_simp
  from C4_first_extremal_row[OF ne inc] ne inc c t p show ?thesis by blast
qed

text \<open>
  C6. For a non-empty frame \<open>soc_swing\<close> is the maximum of \<open>SOC_opt\<close> minus its minimum,
  rounded to two decimals, and it is never negative.
\<close>

theorem C6_soc_swing:
  assumes "df \<noteq> []"
  shows "\<exists>s v. summary df = Inr s \<and> map_of s ''soc_swing'' = Some (Num (Fin v)) \<and>
           v = py_round (Max (SOC_opt ` set df) - Min (SOC_opt ` set df)) 2 \<and> 0 \<le> v"
proof -
  obtain r0 rs where df: "df = r0 # rs" using assms by (cases df) auto
  obtain kp kc ks where t:
    "time_at df (idxmax (col foreign_power_costs df)) = Inr (strftime_HM (timestamp (df ! kp)))"
    "time_at df (idxmin (col foreign_power_costs df)) = Inr (strftime_HM (timestamp (df ! kc)))"
    "time_at df (idxmax (col pv_profile df)) = Inr (strftime_HM (timestamp (df ! ks)))"
    using summary_times[OF assms] by blast
  have sw: "soc_swing_of df = Fin (py_round (Max (SOC_opt ` set df) - Min (SOC_opt ` set df)) 2)"
    by (simp add: soc_swing_of_def col_max[OF assms] col_min[OF assms])
  have "Min (SOC_opt ` set df) \<le> SOC_opt r0" "SOC_opt r0 \<le> Max (SOC_opt ` set df)"
    by (simp_all add: df)
  then have "Min (SOC_opt ` set df) \<le> Max (SOC_opt ` set df)" by (rule order_trans)
  then have nn: "0 \<le> py_round (Max (SOC_opt ` set df) - Min (SOC_opt ` set df)) 2"
    by (intro py_round_nonneg) simp
  obtain s where "summary df = Inr s" "map_of s ''soc_swing'' = Some (Num (soc_swing_of df))"
    using t unfolding df by (simp add: summary_def)
  with sw nn show ?thesis by auto
qed

theorem C6_soc_swing_witness:
  "sample_day \<noteq> [] \<and>
   (\<exists>s v. summary sample_day = Inr s \<and> map_of s ''soc_swing'' = Some (Num (Fin v)) \<and>
      v = 3 / 5 \<and> 0 \<le> v)"
proof -
  have ne: "sample_day \<noteq> []" by (simp add: sample_day_def)
  have m: "Max (SOC_opt ` set sample_day) = 4 / 5" "Min (SOC_opt ` set sample_day) = 1 / 5"
    by (simp_all add: sample_day_def sample_row_def)
  have v: "py_round (4 / 5 - 1 / 5) 2 = 3 / 5" by code_simp
  from C6_soc_swing[OF ne] ne show ?thesis by (simp only: m v) blast
qed

text \<open>
  C2 (as the code has it). A zero denominator raises nothing. For a non-empty frame the
  summary is computed; when the sum of \<open>gross_load\<close> is 0 (in particular when every
  value is 0), \<open>solar_coverage_pct\<close> and \<open>grid_dependence_pct\<close> are \<open>nan\<close> if their
  numerator sum is 0, and plus or minus infinity by its sign otherwise; likewise
  \<open>battery_contribution_pct\<close> when the sum of \<open>net_load\<close> is 0.
\<close>

theorem C2_zero_denominator:
  assumes "df \<noteq> []"
  shows "\<exists>s. summary df = Inr s \<and>
    (sum_list (map gross_load df) = 0 \<longrightarrow>
       map_of s ''solar_coverage_pct'' = Some (Num
         (if sum_list (map pv_utilized_kw_opt df) = 0 then NaN
          else if 0 < sum_list (map pv_utilized_kw_opt df) then PInf else NInf)) \<and>
       map_of s ''grid_dependence_pct'' = Some (Num
         (if sum_list (map grid_import_kw_opt df) = 0 then NaN
          else if 0 < sum_list (map grid_import_kw_opt df) then PInf else NInf))) \<and>
    (sum_list (map net_load df) = 0 \<longrightarrow>
       map_of s ''battery_contribution_pct'' = Some (Num
         (if sum_list (map battery_to_load_kw_opt df) + sum_list (map battery_to_grid_kw_opt df) = 0 then NaN
          else if 0 < sum_list (map battery_to_load_kw_opt df) + sum_list (map battery_to_grid_kw_opt df)
          then PInf else NInf)))"
proof -
  obtain r0 rs where df: "df = r0 # rs" using assms by (cases df) auto
  obtain kp kc ks where t:
    "time_at df (idxmax (col foreign_power_costs df)) = Inr (strftime_HM (timestamp (df ! kp)))"
    "time_at df (idxmin (col foreign_power_costs df)) = Inr (strftime_HM (timestamp (df ! kc)))"
    "time_at df (idxmax (col pv_profile df)) = Inr (strftime_HM (timestamp (df ! ks)))"
    using summary_times[OF assms] by blast
  obtain s where s: "summary df = Inr s"
    "map_of s ''solar_coverage_pct'' = Some (Num (pct (sum_list (map pv_utilized_kw_opt df))
        (sum_list (map gross_load df))))"
    "map_of s ''grid_dependence_pct'' = Some (Num (pct (sum_list (map grid_import_kw_opt df))
        (sum_list (map gross_load df))))"
    "map_of s ''battery_contribution_pct'' = Some (Num (pct
        (sum_list (map battery_to_load_kw_opt df) + sum_list (map battery_to_grid_kw_opt df))
        (sum_list (map net_load df))))"
    using t unfolding df by (simp add: summary_def series_sum_def col_def)
  show ?thesis
    by (rule exI[of _ s]) (simp add: s pct_zero_divisor)
qed


theorem C2_zero_denominator_witness:
  "zero_load_day \<noteq> [] \<and> sum_list (map gross_load zero_load_day) = 0 \<and>
   sum_list (map net_load zero_load_day) = 0 \<and>
   (\<exists>s. summary zero_load_day = Inr s \<and>
      map_of s ''solar_coverage_pct'' = Some (Num PInf) \<and>
      map_of s ''grid_dependence_pct'' = Some (Num NaN) \<and>
      map_of s ''battery_contribution_pct'' = Some (Num PInf))"
proof -
  have ne: "zero_load_day \<noteq> []" by (simp add: zero_load_day_def)
  have v: "sum_list (map gross_load zero_load_day) = 0" "sum_list (map net_load zero_load_day) = 0"
    "sum_list (map pv_utilized_kw_opt zero_load_day) = 5"
    "sum_list (map grid_import_kw_opt zero_load_day) = 0"
    "sum_list (map battery_to_load_kw_opt zero_load_day)
      + sum_list (map battery_to_grid_kw_opt zero_load_day) = 7 / 10"
    by (simp_all add: zero_load_day_def sample_row_def)
  from C2_zero_denominator[OF ne] ne show ?thesis by (simp only: v) simp
qed

text \<open>
  The claim as stated, an error of kind DivisionByZeroMetric, fails on a day whose
  loads are all 0: the summary is returned, with non-finite percentages.
\<close>

theorem C2_raises_counterexample:
  "map gross_load zero_load_day = [0, 0] \<and> map net_load zero_load_day = [0, 0] \<and>
   \<not> isl (summary zero_load_day) \<and>
   map_of (projr (summary zero_load_day)) ''grid_dependence_pct'' = Some (Num NaN) \<and>
   map_of (projr (summary zero_load_day)) ''solar_coverage_pct'' = Some (Num PInf) \<and>
   map_of (projr (summary zero_load_day)) ''battery_contribution_pct'' = Some (Num PInf)"
  by code_simp









section \<open>Properties of the bot and of the script\<close>




text \<open>
  C10. \<open>generate_daily_report\<close> always returns a result. When its body raises an
  exception, the message is the error prefix followed by the text of the exception
  and \<open>chart_path\<close> is \<open>None\<close>; when the body completes, \<open>chart_path\<close> is
  \<open>telegram_chart.png\<close>. Exceptions are the subclasses of \<open>Exception\<close>, which the
  handler names.
\<close>

theorem C10_report_total:
  "(\<exists>e. report_body w = Inl e \<and>
        generate_daily_report w =
          \<lparr>message = report_error_prefix @ str_of_error e, chart_path = None\<rparr>) \<or>
   (\<exists>text. report_body w = Inr \<lparr>message = text, chart_path = Some ''telegram_chart.png''\<rparr> \<and>
        generate_daily_report w = \<lparr>message = text, chart_path = Some ''telegram_chart.png''\<rparr>)"
proof (cases "report_body w")
  case (Inl e)
  then show ?thesis by (simp add: generate_daily_report_def)
next
  case (Inr r)
  then have "chart_path r = Some ''telegram_chart.png''"
    by (auto simp: report_body_def bind_err_def split: sum.splits prod.splits option.splits)
  then have "r = \<lparr>message = message r, chart_path = Some ''telegram_chart.png''\<rparr>" by simp
  with Inr show ?thesis by (auto simp: generate_daily_report_def)
qed


theorem C10_report_total_witness:
  "generate_daily_report missing_file_world =
     \<lparr>message = report_error_prefix @ ''File data/day1.json does not exist'', chart_path = None\<rparr> \<and>
   generate_daily_report (online_world\<lparr>data_file := Inr []\<rparr>) =
     \<lparr>message = report_error_prefix @ ''single positional indexer is out-of-bounds'',
      chart_path = None\<rparr> \<and>
   generate_daily_report online_world =
     \<lparr>message = ''A sunny day.'', chart_path = Some ''telegram_chart.png''\<rparr> \<and>
   ((\<exists>e. report_body online_world = Inl e \<and>
        generate_daily_report online_world =
          \<lparr>message = report_error_prefix @ str_of_error e, chart_path = None\<rparr>) \<or>
    (\<exists>text. report_body online_world =
          Inr \<lparr>message = text, chart_path = Some ''telegram_chart.png''\<rparr> \<and>
        generate_daily_report online_world =
          \<lparr>message = text, chart_path = Some ''telegram_chart.png''\<rparr>))"
proof -
  have a: "generate_daily_report missing_file_world =
     \<lparr>message = report_error_prefix @ ''File data/day1.json does not exist'', chart_path = None\<rparr>"
    by (simp add: generate_daily_report_def report_body_def missing_file_world_def)
  have b: "generate_daily_report (online_world\<lparr>data_file := Inr []\<rparr>) =
     \<lparr>message = report_error_prefix @ ''single positional indexer is out-of-bounds'',
      chart_path = None\<rparr>"
    by (simp add: generate_daily_report_def report_body_def report_summary_def summary_def
        case_prod_beta)
  have c: "generate_daily_report online_world =
     \<lparr>message = ''A sunny day.'', chart_path = Some ''telegram_chart.png''\<rparr>"
    by code_simp
  from C10_report_total[of online_world] a b c show ?thesis by blast
qed




text \<open>
  C8. The API key of the text service is read from the environment variable
  \<open>ANTHROPIC_API_KEY\<close>. The bot token and the webhook address are not: both are the
  literals of the source in every world, also with an empty environment, and no
  setting of the environment changes them.
\<close>

theorem C8_literal_secrets:
  "bot_token w = BOT_TOKEN \<and> webhook_target w = WEBHOOK_URL \<and>
   bot_token (w\<lparr>environ := env\<rparr>) = bot_token w \<and>
   webhook_target (w\<lparr>environ := env\<rparr>) = webhook_target w \<and>
   api_key (w\<lparr>environ := env\<rparr>) = env ''ANTHROPIC_API_KEY'' \<and>
   api_key offline_world = None \<and>
   bot_token offline_world = BOT_TOKEN \<and> BOT_TOKEN \<noteq> [] \<and>
   webhook_target offline_world = WEBHOOK_URL \<and> WEBHOOK_URL \<noteq> []"
  by (simp add: bot_token_def webhook_target_def BOT_TOKEN_def WEBHOOK_URL_def api_key_def
      offline_world_def)

end
